theory Spec2Isabelle
  imports Main "HOL-Library.Word"
begin

section \<open>Values and configuration\<close>

text \<open>
  A C++ \<open>double\<close>. The driver never computes with one, it only copies them from one
  container to another, so a double is its 64-bit pattern and a copy keeps every bit.
\<close>

type_synonym double = "64 word"

definition KUKA_LBR_DOF :: nat where
  "KUKA_LBR_DOF = 7"

text \<open>
  \<open>Params\<close> is a tuple of twelve strings read through \<open>std::get<ParamIndex>\<close>; the
  record names each component after its \<open>ParamIndex\<close> enumerator, in the tuple's order.
\<close>

record Params =
  RobotTipName :: string
  RobotTargetName :: string
  RobotTargetBaseName :: string
  LocalZMQAddress :: string
  RemoteZMQAddress :: string
  LocalHostKukaKoniUDPAddress :: string
  LocalHostKukaKoniUDPPort :: string
  RemoteHostKukaKoniUDPAddress :: string
  RemoteHostKukaKoniUDPPort :: string
  KukaCommandMode :: string
  KukaMonitorMode :: string
  IKGroupName :: string

definition defaultParams :: Params where
  "defaultParams =
     \<lparr> RobotTipName = ''RobotMillTip'',
       RobotTargetName = ''RobotMillTipTarget'',
       RobotTargetBaseName = ''Robotiiwa'',
       LocalZMQAddress = ''tcp://0.0.0.0:30010'',
       RemoteZMQAddress = ''tcp://172.31.1.147:30010'',
       LocalHostKukaKoniUDPAddress = ''192.170.10.100'',
       LocalHostKukaKoniUDPPort = ''30200'',
       RemoteHostKukaKoniUDPAddress = ''192.170.10.2'',
       RemoteHostKukaKoniUDPPort = ''30200'',
       KukaCommandMode = ''JAVA'',
       KukaMonitorMode = ''JAVA'',
       IKGroupName = ''IK_Group1_iiwa'' \<rparr>"

section \<open>The arm state\<close>

text \<open>
  Modelled from the spec: \<open>KukaState\<close> is declared in \<open>grl/kuka/Kuka.hpp\<close>, which is not
  among the sources. The spec's data model makes every field an ordered sequence of
  floating-point values whose length the caller determines. The record holds the four
  members the driver reads or writes: it clears and appends to \<open>commandedPosition\<close> and
  \<open>commandedTorque\<close>, names \<open>commandedCartesianWrenchFeedForward\<close>, and reads
  \<open>torque\<close>, the measured joint torque, which no operation of the driver writes.
\<close>

record KukaState =
  commandedPosition :: "double list"
  commandedTorque :: "double list"
  commandedCartesianWrenchFeedForward :: "double list"
  torque :: "double list"

definition KukaState_default :: KukaState where
  "KukaState_default =
     \<lparr> commandedPosition = [], commandedTorque = [],
       commandedCartesianWrenchFeedForward = [], torque = [] \<rparr>"

section \<open>The message builder and the transport\<close>

text \<open>
  The outgoing message is a FlatBuffers table \<open>JointState\<close> with the three vector fields
  position, velocity and acceleration, in this order (the spec's outgoing message
  schema; \<open>JointState_generated.h\<close> is not among the sources). A builder stores each
  vector it is given and answers with the vector's offset; a table stores the offsets of
  its fields; finishing the buffer records the offset of the root table.
\<close>

record JointStateOffsets =
  position_offset :: nat
  velocity_offset :: nat
  acceleration_offset :: nat

record FlatBufferBuilder =
  vectors :: "double list list"
  tables :: "JointStateOffsets list"
  finished :: "nat option"

text \<open>
  \<open>CreateVector(p, n)\<close> copies the \<open>n\<close> elements that start at \<open>p\<close> and answers with
  the offset of the copy; \<open>p\<close> is given as the elements from the address on. With
  \<open>n = 0\<close> nothing is read through \<open>p\<close>.
\<close>

definition CreateVector ::
    "FlatBufferBuilder \<Rightarrow> double list \<Rightarrow> nat \<Rightarrow> nat \<times> FlatBufferBuilder" where
  "CreateVector fbb p n =
     (length (vectors fbb), fbb\<lparr>vectors := vectors fbb @ [take n p]\<rparr>)"

definition CreateJointState ::
    "FlatBufferBuilder \<Rightarrow> nat \<Rightarrow> nat \<Rightarrow> nat \<Rightarrow> nat \<times> FlatBufferBuilder" where
  "CreateJointState fbb pos vel accel =
     (length (tables fbb),
      fbb\<lparr>tables := tables fbb @
        [\<lparr>position_offset = pos, velocity_offset = vel, acceleration_offset = accel\<rparr>]\<rparr>)"

definition FinishJointStateBuffer :: "FlatBufferBuilder \<Rightarrow> nat \<Rightarrow> FlatBufferBuilder" where
  "FinishJointStateBuffer fbb root = fbb\<lparr>finished := Some root\<rparr>"

text \<open>
  What a receiver reads from a finished buffer: the three vectors of the root table.
  An unfinished buffer, or an offset that points nowhere, has no reading.
\<close>

record JointState =
  position :: "double list"
  velocity :: "double list"
  acceleration :: "double list"

definition GetJointState :: "FlatBufferBuilder \<Rightarrow> JointState option" where
  "GetJointState fbb =
     (case finished fbb of
        None \<Rightarrow> None
      | Some root \<Rightarrow>
          if root < length (tables fbb) then
            (let t = tables fbb ! root in
             if position_offset t < length (vectors fbb)
                \<and> velocity_offset t < length (vectors fbb)
                \<and> acceleration_offset t < length (vectors fbb)
             then Some \<lparr> position = vectors fbb ! position_offset t,
                         velocity = vectors fbb ! velocity_offset t,
                         acceleration = vectors fbb ! acceleration_offset t \<rparr>
             else None)
          else None)"

text \<open>
  Modelled from the spec: \<open>AzmqFlatbuffer\<close> (\<open>grl/AzmqFlatbuffer.hpp\<close>) is not among the
  sources. The spec's transport contract: it is constructed over a bound and connected
  duplex channel, \<open>acquireBuilder\<close> hands out a reusable (empty) builder, and
  \<open>submitAsync\<close> takes a finished builder for transmission without waiting for the
  network; messages leave in the order they were submitted. The record keeps the two
  endpoints of the channel and the submitted builders, oldest first.
\<close>

record AzmqFlatbuffer =
  bound_endpoint :: string
  connected_endpoint :: string
  submitted :: "FlatBufferBuilder list"

definition GetUnusedBufferBuilder :: "AzmqFlatbuffer \<Rightarrow> FlatBufferBuilder" where
  "GetUnusedBufferBuilder t = \<lparr> vectors = [], tables = [], finished = None \<rparr>"

definition async_send_flatbuffer :: "AzmqFlatbuffer \<Rightarrow> FlatBufferBuilder \<Rightarrow> AzmqFlatbuffer" where
  "async_send_flatbuffer t fbb = t\<lparr>submitted := submitted t @ [fbb]\<rparr>"

section \<open>The driver object\<close>

datatype std_thread = Running_io_service | Joined

datatype io_service = Io_ready | Io_stopped

text \<open>
  The members of \<open>KukaJAVAdriver\<close>, in the order the class declares them. A
  \<open>unique_ptr\<close> or \<open>shared_ptr\<close> is an option (\<open>None\<close> is the null pointer);
  \<open>device_driver_workP_\<close> and \<open>params_\<close> are written without the trailing
  underscore, and the work token only matters as null or not. \<open>jt_mutex\<close> is \<open>True\<close>
  while a \<open>lock_guard\<close> on it is alive. \<open>friData_\<close> is never touched and is left
  out.
\<close>

record KukaJAVAdriver =
  m_haveReceivedRealDataCount :: nat
  m_attemptedCommunicationCount :: nat
  m_attemptedCommunicationConsecutiveFailureCount :: nat
  m_attemptedCommunicationConsecutiveSuccessCount :: nat
  device_driver_io_service :: io_service
  device_driver_workP :: bool
  driver_threadP :: "std_thread option"
  kukaJavaDriverP :: "AzmqFlatbuffer option"
  armState :: KukaState
  jt_mutex :: bool
  params :: Params

text \<open>The constructor \<open>KukaJAVAdriver(Params params = defaultParams())\<close>.\<close>

definition KukaJAVAdriver_new :: "Params \<Rightarrow> KukaJAVAdriver" where
  "KukaJAVAdriver_new p =
     \<lparr> m_haveReceivedRealDataCount = 0,
       m_attemptedCommunicationCount = 0,
       m_attemptedCommunicationConsecutiveFailureCount = 0,
       m_attemptedCommunicationConsecutiveSuccessCount = 0,
       device_driver_io_service = Io_ready,
       device_driver_workP = False,
       driver_threadP = None,
       kukaJavaDriverP = None,
       armState = KukaState_default,
       jt_mutex = False,
       params = p \<rparr>"

text \<open>
  \<open>boost::lock_guard<boost::mutex> lock(jt_mutex)\<close> and the end of its scope. The
  mutex is not recursive; every operation below that returns has ended the scope of
  each guard it opened, so in a sequential run a guard is always constructed on a free
  mutex.
\<close>

definition lock_guard :: "KukaJAVAdriver \<Rightarrow> KukaJAVAdriver" where
  "lock_guard d = d\<lparr>jt_mutex := True\<rparr>"

definition end_lock_guard :: "KukaJAVAdriver \<Rightarrow> KukaJAVAdriver" where
  "end_lock_guard d = d\<lparr>jt_mutex := False\<rparr>"

section \<open>Setting commands\<close>

text \<open>
  \<open>set(range, revolute_joint_angle_open_chain_command_tag)\<close>: under the lock,
  \<open>commandedPosition.clear()\<close>, then \<open>boost::copy\<close> through a \<open>back_inserter\<close>,
  which appends the elements of the range in order.
\<close>

definition set_revolute_joint_angle_open_chain_command ::
    "double list \<Rightarrow> KukaJAVAdriver \<Rightarrow> KukaJAVAdriver" where
  "set_revolute_joint_angle_open_chain_command range' d =
     (let d1 = lock_guard d;
          d2 = d1\<lparr>armState := (armState d1)\<lparr>commandedPosition := []\<rparr>\<rparr>;
          d3 = d2\<lparr>armState := (armState d2)
                 \<lparr>commandedPosition := commandedPosition (armState d2) @ range'\<rparr>\<rparr>
      in end_lock_guard d3)"

text \<open>\<open>set(range, revolute_joint_torque_open_chain_command_tag)\<close>: the same on
  \<open>commandedTorque\<close>.\<close>

definition set_revolute_joint_torque_open_chain_command ::
    "double list \<Rightarrow> KukaJAVAdriver \<Rightarrow> KukaJAVAdriver" where
  "set_revolute_joint_torque_open_chain_command range' d =
     (let d1 = lock_guard d;
          d2 = d1\<lparr>armState := (armState d1)\<lparr>commandedTorque := []\<rparr>\<rparr>;
          d3 = d2\<lparr>armState := (armState d2)
                 \<lparr>commandedTorque := commandedTorque (armState d2) @ range'\<rparr>\<rparr>
      in end_lock_guard d3)"

text \<open>
  \<open>set(range, cartesian_wrench_command_tag)\<close>: the body is the lock and
  \<open>std::copy(range, armState.commandedCartesianWrenchFeedForward)\<close>. There is no
  \<open>clear()\<close> and no \<open>back_inserter\<close>, and \<open>std::copy\<close> has no overload of two
  arguments (it takes first, last and destination): the member template passes the
  compiler only as long as nobody calls it, and every call is rejected when the template
  is instantiated. The overload has no execution for any range, which is \<open>None\<close>.
\<close>

definition set_cartesian_wrench_command ::
    "double list \<Rightarrow> KukaJAVAdriver \<Rightarrow> KukaJAVAdriver option" where
  "set_cartesian_wrench_command range' d = None"

section \<open>Failures and build switches\<close>

text \<open>
  What a C++ call can do instead of returning. An exception either derives from
  \<open>boost::exception\<close>, and then carries the error infos attached to it so far, or it
  does not. \<open>std::terminate\<close>, a failed assertion and a failed index check of a
  container end the process.
\<close>

datatype exception = Boost_exception "string list" | Other_exception

datatype failure = Thrown exception | Terminate_called | Assertion_failed | Index_out_of_range

text \<open>
  \<open>&joints[0]\<close>, the first argument of every \<open>CreateVector\<close> call of \<open>run_one\<close>.
  \<open>operator[]\<close> of \<open>std::vector\<close> requires an index below \<open>size()\<close>, which index 0
  of an empty vector is not. What happens then depends on the build, so the build is a
  parameter: with checked containers (libstdc++ under \<open>_GLIBCXX_ASSERTIONS\<close> or its
  debug mode, the checked iterators of other libraries) the check fails and the process
  aborts; without them the expression is only the start address of the vector's
  storage. The result is the elements from that address on.
\<close>

definition address_of_first :: "bool \<Rightarrow> double list \<Rightarrow> failure + double list" where
  "address_of_first checked_containers v =
     (if checked_containers \<and> v = [] then Inl Index_out_of_range else Inr v)"

section \<open>The update step\<close>

text \<open>
  The statements of the body of \<open>if(kukaJavaDriverP)\<close> in \<open>run_one\<close>, one constructor
  for each kind of statement. The scope of a \<open>lock_guard\<close> is the block that declares
  it: \<open>Lock_guard_jt_mutex\<close> is the declaration, \<open>End_of_block\<close> the closing brace that
  destroys the guard.
\<close>

datatype run_one_stmt =
    Declare_joints
  | Get_unused_buffer_builder
  | Joints_clear
  | Lock_guard_jt_mutex
  | End_of_block
  | Copy_commandedPosition
  | Copy_torque
  | Create_vector_jointPos
  | Create_vector_jointVel
  | Create_vector_jointAccel
  | Create_joint_state
  | Finish_joint_state_buffer
  | Async_send_flatbuffer

text \<open>
  The object and the locals of one call. \<open>transport\<close> is the object \<open>kukaJavaDriverP\<close>
  points to. An offset holds 0 until the statement that declares it has run. The first
  argument of \<open>exec_stmt\<close> says whether the build checks container indices.
\<close>

record run_one_frame =
  self :: KukaJAVAdriver
  transport :: AzmqFlatbuffer
  joints :: "double list"
  fbbP :: FlatBufferBuilder
  jointPos :: nat
  jointVel :: nat
  jointAccel :: nat
  jointState :: nat

fun exec_stmt :: "bool \<Rightarrow> run_one_stmt \<Rightarrow> run_one_frame \<Rightarrow> failure + run_one_frame" where
  "exec_stmt c Declare_joints f = Inr (f\<lparr>joints := []\<rparr>)"
| "exec_stmt c Get_unused_buffer_builder f =
     Inr (f\<lparr>fbbP := GetUnusedBufferBuilder (transport f)\<rparr>)"
| "exec_stmt c Joints_clear f = Inr (f\<lparr>joints := []\<rparr>)"
| "exec_stmt c Lock_guard_jt_mutex f = Inr (f\<lparr>self := lock_guard (self f)\<rparr>)"
| "exec_stmt c End_of_block f = Inr (f\<lparr>self := end_lock_guard (self f)\<rparr>)"
| "exec_stmt c Copy_commandedPosition f =
     Inr (f\<lparr>joints := joints f @ commandedPosition (armState (self f))\<rparr>)"
| "exec_stmt c Copy_torque f =
     Inr (f\<lparr>joints := joints f @ torque (armState (self f))\<rparr>)"
| "exec_stmt c Create_vector_jointPos f =
     (case address_of_first c (joints f) of
        Inl e \<Rightarrow> Inl e
      | Inr p \<Rightarrow>
          (case CreateVector (fbbP f) p (length (joints f)) of
             (off, fbb) \<Rightarrow> Inr (f\<lparr>fbbP := fbb, jointPos := off\<rparr>)))"
| "exec_stmt c Create_vector_jointVel f =
     (case address_of_first c (joints f) of
        Inl e \<Rightarrow> Inl e
      | Inr p \<Rightarrow>
          (case CreateVector (fbbP f) p (length (joints f)) of
             (off, fbb) \<Rightarrow> Inr (f\<lparr>fbbP := fbb, jointVel := off\<rparr>)))"
| "exec_stmt c Create_vector_jointAccel f =
     (case address_of_first c (joints f) of
        Inl e \<Rightarrow> Inl e
      | Inr p \<Rightarrow>
          (case CreateVector (fbbP f) p (length (joints f)) of
             (off, fbb) \<Rightarrow> Inr (f\<lparr>fbbP := fbb, jointAccel := off\<rparr>)))"
| "exec_stmt c Create_joint_state f =
     (case CreateJointState (fbbP f) (jointPos f) (jointVel f) (jointAccel f) of
        (off, fbb) \<Rightarrow> Inr (f\<lparr>fbbP := fbb, jointState := off\<rparr>))"
| "exec_stmt c Finish_joint_state_buffer f =
     Inr (f\<lparr>fbbP := FinishJointStateBuffer (fbbP f) (jointState f)\<rparr>)"
| "exec_stmt c Async_send_flatbuffer f =
     Inr (f\<lparr>transport := async_send_flatbuffer (transport f) (fbbP f)\<rparr>)"

text \<open>
  Statements run in order; the first failure ends the run, and the result then holds the
  failure and the frame in which the failing statement started.
\<close>

fun exec_stmts ::
    "bool \<Rightarrow> run_one_stmt list \<Rightarrow> run_one_frame \<Rightarrow> (failure \<times> run_one_frame) + run_one_frame" where
  "exec_stmts c [] f = Inr f"
| "exec_stmts c (s # ss) f =
     (case exec_stmt c s f of
        Inl e \<Rightarrow> Inl (e, f)
      | Inr f' \<Rightarrow> exec_stmts c ss f')"

text \<open>
  The body, statement by statement in the order of the source. The first guard lives in
  a block of its own around the copy of \<open>commandedPosition\<close>; the second is declared at
  the top of the block that holds every statement from the creation of the velocity
  vector to \<open>async_send_flatbuffer\<close>.
\<close>

definition run_one_body :: "run_one_stmt list" where
  "run_one_body =
     [ Declare_joints,
       Get_unused_buffer_builder,
       Joints_clear,
       Lock_guard_jt_mutex,
       Copy_commandedPosition,
       End_of_block,
       Create_vector_jointPos,
       Joints_clear,
       Lock_guard_jt_mutex,
       Create_vector_jointVel,
       Joints_clear,
       Copy_torque,
       Create_vector_jointAccel,
       Create_joint_state,
       Finish_joint_state_buffer,
       Async_send_flatbuffer,
       End_of_block ]"

definition run_one_entry :: "KukaJAVAdriver \<Rightarrow> AzmqFlatbuffer \<Rightarrow> run_one_frame" where
  "run_one_entry d t =
     \<lparr> self = d, transport = t, joints = [],
       fbbP = \<lparr> vectors = [], tables = [], finished = None \<rparr>,
       jointPos = 0, jointVel = 0, jointAccel = 0, jointState = 0 \<rparr>"

text \<open>
  \<open>run_one\<close>: \<open>haveNewData\<close> is initialised to \<open>false\<close> and returned; the body runs
  only when \<open>kukaJavaDriverP\<close> is not null. The first argument is the build switch of
  \<open>address_of_first\<close>. A normal return (\<open>Inr\<close>) gives the returned flag and the object
  afterwards, the transport written back through the pointer; a failure (\<open>Inl\<close>) gives
  the failure and the object as the failure leaves it.
\<close>

definition run_one ::
    "bool \<Rightarrow> KukaJAVAdriver \<Rightarrow> (failure \<times> KukaJAVAdriver) + (bool \<times> KukaJAVAdriver)" where
  "run_one checked_containers d =
     (let haveNewData = False in
      case kukaJavaDriverP d of
        None \<Rightarrow> Inr (haveNewData, d)
      | Some t \<Rightarrow>
          (case exec_stmts checked_containers run_one_body (run_one_entry d t) of
             Inl (e, f) \<Rightarrow> Inl (e, (self f)\<lparr>kukaJavaDriverP := Some (transport f)\<rparr>)
           | Inr f \<Rightarrow> Inr (haveNewData, (self f)\<lparr>kukaJavaDriverP := Some (transport f)\<rparr>)))"

text \<open>
  Each statement that starts, with the state of \<open>jt_mutex\<close> at the moment it starts; the
  list ends with the statement that fails, if one does.
\<close>

fun mutex_trace ::
    "bool \<Rightarrow> run_one_stmt list \<Rightarrow> run_one_frame \<Rightarrow> (run_one_stmt \<times> bool) list" where
  "mutex_trace c [] f = []"
| "mutex_trace c (s # ss) f =
     (s, jt_mutex (self f)) #
       (case exec_stmt c s f of Inl e \<Rightarrow> [] | Inr f' \<Rightarrow> mutex_trace c ss f')"

text \<open>The message a receiver reads from the builder submitted last, if there is one.\<close>

definition last_submitted :: "KukaJAVAdriver \<Rightarrow> JointState option" where
  "last_submitted d =
     (case kukaJavaDriverP d of
        None \<Rightarrow> None
      | Some t \<Rightarrow> (case rev (submitted t) of [] \<Rightarrow> None | fbb # _ \<Rightarrow> GetJointState fbb))"

text \<open>
  Three observations of one call of \<open>run_one\<close>: the flag it returns, if it returns; the
  failure it ends with, if it fails; and the message that is last in the queue when it
  returns.
\<close>

definition run_one_returns :: "bool \<Rightarrow> KukaJAVAdriver \<Rightarrow> bool option" where
  "run_one_returns c d = (case run_one c d of Inl x \<Rightarrow> None | Inr (b, d') \<Rightarrow> Some b)"

definition run_one_failure :: "bool \<Rightarrow> KukaJAVAdriver \<Rightarrow> failure option" where
  "run_one_failure c d = (case run_one c d of Inl (e, d') \<Rightarrow> Some e | Inr x \<Rightarrow> None)"

definition run_one_message :: "bool \<Rightarrow> KukaJAVAdriver \<Rightarrow> JointState option" where
  "run_one_message c d =
     (case run_one c d of Inl x \<Rightarrow> None | Inr (b, d') \<Rightarrow> last_submitted d')"

section \<open>Construction and destruction\<close>

definition errmsg_info :: "Params \<Rightarrow> string" where
  "errmsg_info p =
     ''KukaLBRiiwaRosPlugin: Unable to connect to ZeroMQ Socket from ''
       @ LocalZMQAddress p @ '' to '' @ RemoteZMQAddress p"

text \<open>
  The handler \<open>catch(boost::exception &e) { e << errmsg_info(...); throw; }\<close>: it
  catches by type, so an exception of another type passes through as it is.
\<close>

fun catch_boost_exception :: "Params \<Rightarrow> exception \<Rightarrow> exception" where
  "catch_boost_exception p (Boost_exception infos) = Boost_exception (infos @ [errmsg_info p])"
| "catch_boost_exception p Other_exception = Other_exception"

text \<open>
  \<open>construct(Params params)\<close>. Binding and connecting the socket are calls into the
  external azmq library; what they do is a parameter: \<open>None\<close> when the call succeeds,
  the exception when it throws. The result is the object after a normal return
  (\<open>Inr\<close>), or the failure together with the object as the failure leaves it (\<open>Inl\<close>).
  \<open>params_\<close> and the work token are assigned before the \<open>try\<close>; \<open>kukaJavaDriverP\<close> is
  assigned only after both socket calls have returned. \<open>driver_threadP.reset(new
  std::thread(...))\<close> destroys the thread object it held before, and destroying a
  thread that was not joined calls \<open>std::terminate\<close>.
\<close>

definition construct ::
    "exception option \<Rightarrow> exception option \<Rightarrow> Params \<Rightarrow> KukaJAVAdriver
       \<Rightarrow> (failure \<times> KukaJAVAdriver) + KukaJAVAdriver" where
  "construct bind_throws connect_throws p d =
     (let d1 = d\<lparr>params := p\<rparr>;
          d2 = d1\<lparr>device_driver_workP := True\<rparr>
      in case bind_throws of
           Some e \<Rightarrow> Inl (Thrown (catch_boost_exception (params d2) e), d2)
         | None \<Rightarrow>
             (case connect_throws of
                Some e \<Rightarrow> Inl (Thrown (catch_boost_exception (params d2) e), d2)
              | None \<Rightarrow>
                  (let d3 = d2\<lparr>kukaJavaDriverP :=
                              Some \<lparr> bound_endpoint = LocalZMQAddress (params d2),
                                     connected_endpoint = RemoteZMQAddress (params d2),
                                     submitted = [] \<rparr>\<rparr>;
                       d4 = d3\<lparr>driver_threadP := Some Running_io_service\<rparr>
                   in case driver_threadP d3 of
                        Some Running_io_service \<Rightarrow> Inl (Terminate_called, d4)
                      | Some Joined \<Rightarrow> Inr d4
                      | None \<Rightarrow> Inr d4)))"

text \<open>The overload \<open>construct()\<close> calls \<open>construct(params_)\<close>.\<close>

definition construct0 ::
    "exception option \<Rightarrow> exception option \<Rightarrow> KukaJAVAdriver
       \<Rightarrow> (failure \<times> KukaJAVAdriver) + KukaJAVAdriver" where
  "construct0 bind_throws connect_throws d = construct bind_throws connect_throws (params d) d"

text \<open>
  The destructor: the work token is released; if there is a thread, the io service is
  stopped and the thread joined.
\<close>

definition destructor :: "KukaJAVAdriver \<Rightarrow> KukaJAVAdriver" where
  "destructor d =
     (let d1 = d\<lparr>device_driver_workP := False\<rparr>
      in case driver_threadP d1 of
           None \<Rightarrow> d1
         | Some th \<Rightarrow> d1\<lparr>device_driver_io_service := Io_stopped, driver_threadP := Some Joined\<rparr>)"

section \<open>Reading back\<close>

text \<open>
  \<open>BOOST_VERIFY(expr)\<close> of \<open>boost/assert.hpp\<close>. The macro is
  \<open>((void)(expr))\<close> when \<open>BOOST_DISABLE_ASSERTS\<close> is defined, or when \<open>NDEBUG\<close> is
  defined and \<open>BOOST_ENABLE_ASSERT_HANDLER\<close> is not; otherwise it is
  \<open>BOOST_ASSERT(expr)\<close>, which signals a false \<open>expr\<close> as a failed assertion (through
  \<open>assert\<close>, which aborts, unless a handler is installed). The first argument says
  whether the build has assertions switched on.
\<close>

definition BOOST_VERIFY :: "bool \<Rightarrow> bool \<Rightarrow> failure + unit" where
  "BOOST_VERIFY assertions_on expr =
     (if assertions_on then (if expr then Inr () else Inl Assertion_failed) else Inr ())"

text \<open>
  \<open>get(output, revolute_joint_angle_open_chain_state_tag)\<close>: the body is
  \<open>BOOST_VERIFY(false)\<close>. \<open>output\<close> is what the output iterator has received; the
  function writes nothing to it.
\<close>

definition get_revolute_joint_angle_open_chain_state ::
    "bool \<Rightarrow> double list \<Rightarrow> KukaJAVAdriver \<Rightarrow> failure + (double list \<times> KukaJAVAdriver)" where
  "get_revolute_joint_angle_open_chain_state assertions_on output d =
     (case BOOST_VERIFY assertions_on False of
        Inl e \<Rightarrow> Inl e
      | Inr u \<Rightarrow> Inr (output, d))"

text \<open>\<open>get(KukaState & state)\<close>: under the lock, \<open>state = armState\<close>.\<close>

definition get_KukaState :: "KukaJAVAdriver \<Rightarrow> KukaState \<times> KukaJAVAdriver" where
  "get_KukaState d =
     (let d1 = lock_guard d;
          state = armState d1
      in (state, end_lock_guard d1))"

text \<open>
  \<open>setState(State&)\<close> returns \<open>true\<close> and does nothing else; \<open>State\<close> is the tuple of
  five \<open>JointScalar\<close>s and the transformation matrices (the tag carries no data).
\<close>

type_synonym State =
  "double list \<times> double list \<times> double list \<times> double list \<times> double list \<times> double list list"

definition setState :: "State \<Rightarrow> KukaJAVAdriver \<Rightarrow> bool \<times> KukaJAVAdriver" where
  "setState state d = (True, d)"

definition getParams :: "KukaJAVAdriver \<Rightarrow> Params" where
  "getParams d = params d"

section \<open>Sequences of operations\<close>

text \<open>
  One constructor for each public operation, with its arguments. \<open>Construct\<close> carries
  what the two socket calls do, \<open>Run_one\<close> whether container indices are checked,
  \<open>Get_joint_angle_state\<close> whether assertions are on.
\<close>

datatype operation =
    Construct "exception option" "exception option" Params
  | Construct0 "exception option" "exception option"
  | SetState State
  | GetParams
  | Destructor
  | Run_one bool
  | Set_joint_angle "double list"
  | Set_joint_torque "double list"
  | Set_cartesian_wrench "double list"
  | Get_joint_angle_state bool "double list"
  | Get_KukaState

text \<open>
  The object after an operation, whether the operation returned or failed. A failure
  leaves the object as it was when the failure happened; an operation that has no
  execution leaves it as it was.
\<close>

fun state_after :: "operation \<Rightarrow> KukaJAVAdriver \<Rightarrow> KukaJAVAdriver" where
  "state_after (Construct b c p) d =
     (case construct b c p d of Inl (e, d') \<Rightarrow> d' | Inr d' \<Rightarrow> d')"
| "state_after (Construct0 b c) d =
     (case construct0 b c d of Inl (e, d') \<Rightarrow> d' | Inr d' \<Rightarrow> d')"
| "state_after (SetState st) d = snd (setState st d)"
| "state_after GetParams d = d"
| "state_after Destructor d = destructor d"
| "state_after (Run_one c) d =
     (case run_one c d of Inl (e, d') \<Rightarrow> d' | Inr (b, d') \<Rightarrow> d')"
| "state_after (Set_joint_angle r) d = set_revolute_joint_angle_open_chain_command r d"
| "state_after (Set_joint_torque r) d = set_revolute_joint_torque_open_chain_command r d"
| "state_after (Set_cartesian_wrench r) d =
     (case set_cartesian_wrench_command r d of None \<Rightarrow> d | Some d' \<Rightarrow> d')"
| "state_after (Get_joint_angle_state a out) d =
     (case get_revolute_joint_angle_open_chain_state a out d of
        Inl e \<Rightarrow> d
      | Inr (out', d') \<Rightarrow> d')"
| "state_after Get_KukaState d = snd (get_KukaState d)"

fun is_Set_joint_angle :: "operation \<Rightarrow> bool" where
  "is_Set_joint_angle (Set_joint_angle r) = True"
| "is_Set_joint_angle other = False"

section \<open>Auxiliary definitions\<close>

text \<open>
  The builder \<open>run_one\<close> submits for an arm state: the three vectors in the order they
  were created, one table that points to them, and the table as root.
\<close>

definition message_builder :: "KukaState \<Rightarrow> FlatBufferBuilder" where
  "message_builder st =
     \<lparr> vectors = [commandedPosition st, [], torque st],
       tables = [\<lparr>position_offset = 0, velocity_offset = 1, acceleration_offset = 2\<rparr>],
       finished = Some 0 \<rparr>"

text \<open>The four health counters of a driver, in the order of their declaration.\<close>

definition health_counters :: "KukaJAVAdriver \<Rightarrow> nat \<times> nat \<times> nat \<times> nat" where
  "health_counters d =
     (m_haveReceivedRealDataCount d, m_attemptedCommunicationCount d,
      m_attemptedCommunicationConsecutiveFailureCount d,
      m_attemptedCommunicationConsecutiveSuccessCount d)"

text \<open>
  Three concrete drivers: one just built with the default parameters; the same one
  after a \<open>construct\<close> whose socket calls both succeed; and a connected one whose
  measured torque holds two values, a state the driver's own operations never produce
  but which tells the fields of a message apart.
\<close>

definition fresh_driver :: KukaJAVAdriver where
  "fresh_driver = KukaJAVAdriver_new defaultParams"

definition connected_driver :: KukaJAVAdriver where
  "connected_driver = state_after (Construct None None defaultParams) fresh_driver"

definition driver_with_torque :: KukaJAVAdriver where
  "driver_with_torque =
     connected_driver\<lparr>armState := (armState connected_driver)\<lparr>torque := [3, 4]\<rparr>\<rparr>"

section \<open>What one update step does\<close>

text \<open>Without index checks the body runs to its end.\<close>

lemma exec_unchecked:
  "exec_stmts False run_one_body (run_one_entry d t) =
     Inr \<lparr> self = d\<lparr>jt_mutex := False\<rparr>,
           transport = t\<lparr>submitted := submitted t @ [message_builder (armState d)]\<rparr>,
           joints = torque (armState d),
           fbbP = message_builder (armState d),
           jointPos = 0, jointVel = 1, jointAccel = 2, jointState = 0 \<rparr>"
  by (simp add: run_one_body_def run_one_entry_def message_builder_def address_of_first_def
      CreateVector_def CreateJointState_def FinishJointStateBuffer_def
      GetUnusedBufferBuilder_def async_send_flatbuffer_def lock_guard_def end_lock_guard_def)

text \<open>
  With index checks the body never gets past the velocity vector, which is created from
  a vector that was just cleared; it stops at the position vector already when
  \<open>commandedPosition\<close> is empty.
\<close>

lemma exec_checked_empty_position:
  "commandedPosition (armState d) = [] \<Longrightarrow>
   exec_stmts True run_one_body (run_one_entry d t) =
     Inl (Index_out_of_range,
          \<lparr> self = d\<lparr>jt_mutex := False\<rparr>, transport = t, joints = [],
            fbbP = \<lparr> vectors = [], tables = [], finished = None \<rparr>,
            jointPos = 0, jointVel = 0, jointAccel = 0, jointState = 0 \<rparr>)"
  by (simp add: run_one_body_def run_one_entry_def address_of_first_def
      CreateVector_def GetUnusedBufferBuilder_def lock_guard_def end_lock_guard_def)

lemma exec_checked_position:
  "commandedPosition (armState d) \<noteq> [] \<Longrightarrow>
   exec_stmts True run_one_body (run_one_entry d t) =
     Inl (Index_out_of_range,
          \<lparr> self = d\<lparr>jt_mutex := True\<rparr>, transport = t, joints = [],
            fbbP = \<lparr> vectors = [commandedPosition (armState d)], tables = [],
                     finished = None \<rparr>,
            jointPos = 0, jointVel = 0, jointAccel = 0, jointState = 0 \<rparr>)"
  by (simp add: run_one_body_def run_one_entry_def address_of_first_def
      CreateVector_def GetUnusedBufferBuilder_def lock_guard_def end_lock_guard_def)

text \<open>\<open>run_one\<close> in closed form, for both builds.\<close>

lemma run_one_eq:
  "run_one c d =
     (case kukaJavaDriverP d of
        None \<Rightarrow> Inr (False, d)
      | Some t \<Rightarrow>
          if c then Inl (Index_out_of_range,
                         d\<lparr>jt_mutex := (commandedPosition (armState d) \<noteq> []),
                           kukaJavaDriverP := Some t\<rparr>)
          else Inr (False,
                    d\<lparr>jt_mutex := False,
                      kukaJavaDriverP :=
                        Some (t\<lparr>submitted := submitted t @ [message_builder (armState d)]\<rparr>)\<rparr>))"
proof (cases "kukaJavaDriverP d")
  case None
  then show ?thesis by (simp add: run_one_def)
next
  case (Some t)
  show ?thesis
  proof (cases c)
    case False
    with Some show ?thesis by (simp add: run_one_def exec_unchecked)
  next
    case True
    show ?thesis
    proof (cases "commandedPosition (armState d) = []")
      case e: True
      with Some \<open>c\<close> show ?thesis by (simp add: run_one_def exec_checked_empty_position)
    next
      case ne: False
      with Some \<open>c\<close> show ?thesis by (simp add: run_one_def exec_checked_position)
    qed
  qed
qed

lemma GetJointState_message_builder:
  "GetJointState (message_builder st) =
     Some \<lparr> position = commandedPosition st, velocity = [], acceleration = torque st \<rparr>"
  by (simp add: GetJointState_def message_builder_def)

lemma run_one_message_unchecked:
  "kukaJavaDriverP d = Some t \<Longrightarrow>
   run_one_message False d =
     Some \<lparr> position = commandedPosition (armState d), velocity = [],
            acceleration = torque (armState d) \<rparr>"
  by (simp add: run_one_message_def run_one_eq last_submitted_def GetJointState_message_builder)

lemma run_one_message_checked:
  "kukaJavaDriverP d = Some t \<Longrightarrow> run_one_message True d = None"
  by (simp add: run_one_message_def run_one_eq)

lemma run_one_failure_eq:
  "run_one_failure c d =
     (if c \<and> kukaJavaDriverP d \<noteq> None then Some Index_out_of_range else None)"
  by (simp add: run_one_failure_def run_one_eq split: option.splits)

section \<open>What the setters change\<close>

lemma set_angle_armState:
  "armState (set_revolute_joint_angle_open_chain_command S d)
     = (armState d)\<lparr>commandedPosition := S\<rparr>"
  by (simp add: set_revolute_joint_angle_open_chain_command_def lock_guard_def
      end_lock_guard_def)

lemma set_torque_armState:
  "armState (set_revolute_joint_torque_open_chain_command T d)
     = (armState d)\<lparr>commandedTorque := T\<rparr>"
  by (simp add: set_revolute_joint_torque_open_chain_command_def lock_guard_def
      end_lock_guard_def)

lemma set_angle_transport:
  "kukaJavaDriverP (set_revolute_joint_angle_open_chain_command S d) = kukaJavaDriverP d"
  by (simp add: set_revolute_joint_angle_open_chain_command_def lock_guard_def
      end_lock_guard_def)

lemma set_torque_transport:
  "kukaJavaDriverP (set_revolute_joint_torque_open_chain_command T d) = kukaJavaDriverP d"
  by (simp add: set_revolute_joint_torque_open_chain_command_def lock_guard_def
      end_lock_guard_def)

section \<open>Frame properties of the operations\<close>

text \<open>Only the joint angle setter writes \<open>commandedPosition\<close>.\<close>

lemma state_after_commandedPosition:
  "\<not> is_Set_joint_angle op \<Longrightarrow>
   commandedPosition (armState (state_after op d)) = commandedPosition (armState d)"
  by (cases op)
     (simp_all add: construct_def construct0_def setState_def destructor_def run_one_eq
        set_revolute_joint_torque_open_chain_command_def
        set_cartesian_wrench_command_def get_revolute_joint_angle_open_chain_state_def
        BOOST_VERIFY_def get_KukaState_def lock_guard_def end_lock_guard_def Let_def
        split: option.splits std_thread.splits)

lemma fold_state_after_commandedPosition:
  "\<not> list_ex is_Set_joint_angle ops \<Longrightarrow>
   commandedPosition (armState (fold state_after ops d)) = commandedPosition (armState d)"
  by (induction ops arbitrary: d) (simp_all add: state_after_commandedPosition)

text \<open>No operation writes \<open>torque\<close>, the field \<open>run_one\<close> sends as acceleration.\<close>

lemma state_after_torque:
  "torque (armState (state_after op d)) = torque (armState d)"
  by (cases op)
     (simp_all add: construct_def construct0_def setState_def destructor_def run_one_eq
        set_revolute_joint_torque_open_chain_command_def
        set_revolute_joint_angle_open_chain_command_def
        set_cartesian_wrench_command_def get_revolute_joint_angle_open_chain_state_def
        BOOST_VERIFY_def get_KukaState_def lock_guard_def end_lock_guard_def Let_def
        split: option.splits std_thread.splits)

lemma fold_state_after_torque:
  "torque (armState (fold state_after ops d)) = torque (armState d)"
  by (induction ops arbitrary: d) (simp_all add: state_after_torque)

lemma state_after_health_counters:
  "health_counters (state_after op d) = health_counters d"
  by (cases op)
     (simp_all add: health_counters_def construct_def construct0_def setState_def
        destructor_def run_one_eq
        set_revolute_joint_torque_open_chain_command_def
        set_revolute_joint_angle_open_chain_command_def
        set_cartesian_wrench_command_def get_revolute_joint_angle_open_chain_state_def
        BOOST_VERIFY_def get_KukaState_def lock_guard_def end_lock_guard_def Let_def
        split: option.splits std_thread.splits)

lemma fold_state_after_health_counters:
  "health_counters (fold state_after ops d) = health_counters d"
  by (induction ops arbitrary: d) (simp_all add: state_after_health_counters)

section \<open>The concrete drivers\<close>

lemma fresh_driver_transport: "kukaJavaDriverP fresh_driver = None"
  by (simp add: fresh_driver_def KukaJAVAdriver_new_def)

lemma connected_driver_transport:
  "kukaJavaDriverP connected_driver =
     Some \<lparr> bound_endpoint = ''tcp://0.0.0.0:30010'',
            connected_endpoint = ''tcp://172.31.1.147:30010'', submitted = [] \<rparr>"
  by (simp add: connected_driver_def fresh_driver_def construct_def KukaJAVAdriver_new_def
      defaultParams_def)

lemma connected_driver_armState: "armState connected_driver = KukaState_default"
  by (simp add: connected_driver_def fresh_driver_def construct_def KukaJAVAdriver_new_def)

lemma driver_with_torque_transport:
  "kukaJavaDriverP driver_with_torque =
     Some \<lparr> bound_endpoint = ''tcp://0.0.0.0:30010'',
            connected_endpoint = ''tcp://172.31.1.147:30010'', submitted = [] \<rparr>"
  by (simp add: driver_with_torque_def connected_driver_transport)

lemma driver_with_torque_armState:
  "armState driver_with_torque = KukaState_default\<lparr>torque := [3, 4]\<rparr>"
  by (simp add: driver_with_torque_def connected_driver_armState)

section \<open>The claims\<close>

text \<open>
  C1. Let \<open>S\<close> be the sequence stored last by \<open>set(S, JointAngleCommand)\<close>: the setter
  ran on any driver, and any operations other than this setter followed it
  (\<open>construct\<close> among them), and the driver then has a Transport. In a build without
  index checks \<open>run_one\<close> submits a message whose position field reads exactly \<open>S\<close>,
  in the same order, for every length of \<open>S\<close>, the seven joint values of the arm
  included. In a build with index checks the same call builds no message: it ends with
  a failed index check, because the velocity vector is created through \<open>&joints[0]\<close>
  on a vector that was just cleared.
\<close>

theorem run_one_position_is_commanded_angle:
  assumes "\<not> list_ex is_Set_joint_angle ops"
    and "kukaJavaDriverP
           (fold state_after ops (set_revolute_joint_angle_open_chain_command S d)) = Some t"
  shows "map_option position
           (run_one_message False
              (fold state_after ops (set_revolute_joint_angle_open_chain_command S d)))
         = Some S
       \<and> run_one_message True
           (fold state_after ops (set_revolute_joint_angle_open_chain_command S d)) = None
       \<and> run_one_failure True
           (fold state_after ops (set_revolute_joint_angle_open_chain_command S d))
         = Some Index_out_of_range"
  using assms
  by (simp add: run_one_message_unchecked run_one_message_checked run_one_failure_eq
      fold_state_after_commandedPosition set_angle_armState)

text \<open>
  An instance: seven angles are set on a fresh driver, then a torque is set, the driver
  is connected and one message is sent; the next \<open>run_one\<close> sends the seven angles in
  the build without index checks and fails in the build with them.
\<close>

theorem run_one_position_is_commanded_angle_witness:
  "\<not> list_ex is_Set_joint_angle
        [Set_joint_torque [8, 9], Construct None None defaultParams, Run_one False]
   \<and> kukaJavaDriverP
        (fold state_after
           [Set_joint_torque [8, 9], Construct None None defaultParams, Run_one False]
           (set_revolute_joint_angle_open_chain_command [1, 2, 3, 4, 5, 6, 7] fresh_driver))
       \<noteq> None
   \<and> length [1, 2, 3, 4, 5, 6, 7 :: double] = KUKA_LBR_DOF
   \<and> map_option position
        (run_one_message False
           (fold state_after
              [Set_joint_torque [8, 9], Construct None None defaultParams, Run_one False]
              (set_revolute_joint_angle_open_chain_command [1, 2, 3, 4, 5, 6, 7] fresh_driver)))
       = Some [1, 2, 3, 4, 5, 6, 7]
   \<and> run_one_message True
        (fold state_after
           [Set_joint_torque [8, 9], Construct None None defaultParams, Run_one False]
           (set_revolute_joint_angle_open_chain_command [1, 2, 3, 4, 5, 6, 7] fresh_driver))
       = None
   \<and> run_one_failure True
        (fold state_after
           [Set_joint_torque [8, 9], Construct None None defaultParams, Run_one False]
           (set_revolute_joint_angle_open_chain_command [1, 2, 3, 4, 5, 6, 7] fresh_driver))
       = Some Index_out_of_range"
proof -
  let ?ops = "[Set_joint_torque [8, 9], Construct None None defaultParams, Run_one False]"
  let ?d = "fold state_after ?ops
              (set_revolute_joint_angle_open_chain_command [1, 2, 3, 4, 5, 6, 7] fresh_driver)"
  have h1: "\<not> list_ex is_Set_joint_angle ?ops" by simp
  have h2: "kukaJavaDriverP ?d \<noteq> None"
    by (simp add: run_one_eq construct_def set_torque_transport
        set_angle_transport fresh_driver_transport
        set_revolute_joint_torque_open_chain_command_def
        set_revolute_joint_angle_open_chain_command_def lock_guard_def end_lock_guard_def
        fresh_driver_def KukaJAVAdriver_new_def Let_def)
  then obtain t where h3: "kukaJavaDriverP ?d = Some t" by auto
  have h4: "length [1, 2, 3, 4, 5, 6, 7 :: double] = KUKA_LBR_DOF"
    by (simp add: KUKA_LBR_DOF_def)
  from run_one_position_is_commanded_angle [OF h1 h3] h1 h2 h4 show ?thesis by simp
qed

text \<open>
  C2. The claim is that the sequence \<open>T\<close> given to \<open>set(T, JointTorqueCommand)\<close> is
  what \<open>run_one\<close> sends as acceleration. The code does not do so: the setter stores
  \<open>T\<close> in \<open>commandedTorque\<close>, and \<open>run_one\<close> copies the member \<open>torque\<close>. With a
  Transport and without index checks, the acceleration field is the \<open>torque\<close> field as
  it was before the setter, the message is the same with or without the setter, and
  \<open>T\<close> sits in \<open>commandedTorque\<close>. No operation writes \<open>torque\<close>, so on every
  state the driver's operations reach from a new driver it is empty.
\<close>

theorem run_one_acceleration_is_torque_field:
  assumes "kukaJavaDriverP d = Some t"
  shows "map_option acceleration
           (run_one_message False (set_revolute_joint_torque_open_chain_command T d))
         = Some (torque (armState d))
       \<and> run_one_message False (set_revolute_joint_torque_open_chain_command T d)
         = run_one_message False d
       \<and> commandedTorque (armState (set_revolute_joint_torque_open_chain_command T d)) = T
       \<and> torque (armState (fold state_after ops (KukaJAVAdriver_new p))) = []"
  using assms
  by (simp add: run_one_message_unchecked set_torque_transport set_torque_armState
      fold_state_after_torque KukaJAVAdriver_new_def KukaState_default_def)

text \<open>
  An instance on a driver whose \<open>torque\<close> holds 3 and 4: seven torques are set, and the
  acceleration sent is 3 and 4.
\<close>

theorem run_one_acceleration_is_torque_field_witness:
  "kukaJavaDriverP driver_with_torque \<noteq> None
   \<and> map_option acceleration
        (run_one_message False
           (set_revolute_joint_torque_open_chain_command [1, 2, 3, 4, 5, 6, 7] driver_with_torque))
       = Some [3, 4]
   \<and> run_one_message False
        (set_revolute_joint_torque_open_chain_command [1, 2, 3, 4, 5, 6, 7] driver_with_torque)
       = run_one_message False driver_with_torque
   \<and> commandedTorque (armState
        (set_revolute_joint_torque_open_chain_command [1, 2, 3, 4, 5, 6, 7] driver_with_torque))
       = [1, 2, 3, 4, 5, 6, 7]
   \<and> torque (armState (fold state_after [Set_joint_torque [1, 2, 3, 4, 5, 6, 7]] fresh_driver))
       = []"
proof -
  note inst = run_one_acceleration_is_torque_field [OF driver_with_torque_transport, of "[1, 2, 3, 4, 5, 6, 7]"
                   "[Set_joint_torque [1, 2, 3, 4, 5, 6, 7]]" defaultParams]
  have h: "kukaJavaDriverP driver_with_torque \<noteq> None"
    by (simp add: driver_with_torque_transport)
  have a: "map_option acceleration
        (run_one_message False
           (set_revolute_joint_torque_open_chain_command [1, 2, 3, 4, 5, 6, 7] driver_with_torque))
       = Some [3, 4]"
    using inst [THEN conjunct1] by (simp add: driver_with_torque_armState)
  have e: "torque (armState
        (fold state_after [Set_joint_torque [1, 2, 3, 4, 5, 6, 7]] fresh_driver)) = []"
    using inst [THEN conjunct2, THEN conjunct2, THEN conjunct2] by (simp add: fresh_driver_def)
  show ?thesis
    by (intro conjI h a e inst [THEN conjunct2, THEN conjunct1]
        inst [THEN conjunct2, THEN conjunct2, THEN conjunct1])
qed

text \<open>
  The same on a driver that \<open>construct\<close> has just connected: seven torques are set, and
  the message \<open>run_one\<close> submits has three empty fields.
\<close>

lemma run_one_acceleration_not_commanded_torque:
  "kukaJavaDriverP
     (set_revolute_joint_torque_open_chain_command [1, 2, 3, 4, 5, 6, 7] connected_driver)
     \<noteq> None
   \<and> run_one_message False
        (set_revolute_joint_torque_open_chain_command [1, 2, 3, 4, 5, 6, 7] connected_driver)
       = Some \<lparr> position = [], velocity = [], acceleration = [] \<rparr>
   \<and> map_option acceleration
        (run_one_message False
           (set_revolute_joint_torque_open_chain_command [1, 2, 3, 4, 5, 6, 7] connected_driver))
       \<noteq> Some [1, 2, 3, 4, 5, 6, 7]"
  by (simp add: run_one_message_unchecked
        [OF trans [OF set_torque_transport connected_driver_transport]]
      set_torque_transport connected_driver_transport set_torque_armState
      connected_driver_armState KukaState_default_def)

text \<open>
  C3. The claim is that \<open>run_one\<close> returns \<open>false\<close> on every call. It returns
  \<open>false\<close> whenever it returns, and it returns on every call but one kind: with a
  Transport, in a build with index checks, the call ends with a failed index check
  before it reaches \<open>return haveNewData\<close>.
\<close>

theorem run_one_returns_false_or_fails_index_check:
  "run_one_returns c d = (if c \<and> kukaJavaDriverP d \<noteq> None then None else Some False)
   \<and> run_one_failure c d
       = (if c \<and> kukaJavaDriverP d \<noteq> None then Some Index_out_of_range else None)"
  by (simp add: run_one_returns_def run_one_failure_def run_one_eq split: option.splits)

text \<open>
  C4. The claim is that the mutex is held only during the copies and is free when
  vectors are created, the message is finished and submitted. The code does not do so:
  the first guard is released before the position vector is created, but the second
  guard is alive when the velocity and acceleration vectors are created, when the table
  is created, when the buffer is finished and when it is handed to
  \<open>async_send_flatbuffer\<close>. The theorem lists, for a call that starts with the mutex
  free, every statement that starts with the state of the mutex at that moment: the
  whole body in a build without index checks, and in a build with them the statements
  up to the one that fails, which is the creation of the velocity vector under the
  second guard unless \<open>commandedPosition\<close> is empty.
\<close>

theorem run_one_mutex_held_until_send:
  "mutex_trace False run_one_body (run_one_entry (d\<lparr>jt_mutex := False\<rparr>) t) =
     [ (Declare_joints, False),
       (Get_unused_buffer_builder, False),
       (Joints_clear, False),
       (Lock_guard_jt_mutex, False),
       (Copy_commandedPosition, True),
       (End_of_block, True),
       (Create_vector_jointPos, False),
       (Joints_clear, False),
       (Lock_guard_jt_mutex, False),
       (Create_vector_jointVel, True),
       (Joints_clear, True),
       (Copy_torque, True),
       (Create_vector_jointAccel, True),
       (Create_joint_state, True),
       (Finish_joint_state_buffer, True),
       (Async_send_flatbuffer, True),
       (End_of_block, True) ]
   \<and> mutex_trace True run_one_body (run_one_entry (d\<lparr>jt_mutex := False\<rparr>) t) =
     (if commandedPosition (armState d) = [] then
        [ (Declare_joints, False),
          (Get_unused_buffer_builder, False),
          (Joints_clear, False),
          (Lock_guard_jt_mutex, False),
          (Copy_commandedPosition, True),
          (End_of_block, True),
          (Create_vector_jointPos, False) ]
      else
        [ (Declare_joints, False),
          (Get_unused_buffer_builder, False),
          (Joints_clear, False),
          (Lock_guard_jt_mutex, False),
          (Copy_commandedPosition, True),
          (End_of_block, True),
          (Create_vector_jointPos, False),
          (Joints_clear, False),
          (Lock_guard_jt_mutex, False),
          (Create_vector_jointVel, True) ])"
  by (simp add: run_one_body_def run_one_entry_def address_of_first_def CreateVector_def
      CreateJointState_def lock_guard_def end_lock_guard_def split: prod.splits)

text \<open>
  C5. The joint angle and joint torque setters leave exactly the given sequence in
  their field, whatever the field held before. The Cartesian wrench setter does not: it
  neither clears nor appends, and its only statement is a call no overload of
  \<open>std::copy\<close> accepts, so it stores nothing for any input.
\<close>

theorem set_replaces_angle_and_torque_not_wrench:
  "commandedPosition (armState (set_revolute_joint_angle_open_chain_command V d)) = V
   \<and> commandedTorque (armState (set_revolute_joint_torque_open_chain_command V d)) = V
   \<and> set_cartesian_wrench_command V d = None"
  by (simp add: set_angle_armState set_torque_armState set_cartesian_wrench_command_def)

text \<open>
  C6. The claim is that with a Transport the velocity field of the message is the
  empty vector. In a build without index checks it is, for every stored state. The
  empty vector is created as \<open>CreateVector(&joints[0], joints.size())\<close> right after
  \<open>joints.clear()\<close>: in a build with index checks \<open>joints[0]\<close> fails its check and the
  call ends there, with no message.
\<close>

theorem run_one_velocity_empty:
  assumes "kukaJavaDriverP d = Some t"
  shows "map_option velocity (run_one_message False d) = Some []
       \<and> run_one_message True d = None
       \<and> run_one_failure True d = Some Index_out_of_range"
  using assms
  by (simp add: run_one_message_unchecked run_one_message_checked run_one_failure_eq)

text \<open>
  An instance on a driver whose commanded position and torque are not empty: the
  velocity is empty, the other two fields are not.
\<close>

theorem run_one_velocity_empty_witness:
  "kukaJavaDriverP
     (set_revolute_joint_angle_open_chain_command [1, 2, 3, 4, 5, 6, 7] driver_with_torque)
     \<noteq> None
   \<and> run_one_message False
        (set_revolute_joint_angle_open_chain_command [1, 2, 3, 4, 5, 6, 7] driver_with_torque)
       = Some \<lparr> position = [1, 2, 3, 4, 5, 6, 7], velocity = [], acceleration = [3, 4] \<rparr>
   \<and> map_option velocity
        (run_one_message False
           (set_revolute_joint_angle_open_chain_command [1, 2, 3, 4, 5, 6, 7] driver_with_torque))
       = Some []
   \<and> run_one_message True
        (set_revolute_joint_angle_open_chain_command [1, 2, 3, 4, 5, 6, 7] driver_with_torque)
       = None
   \<and> run_one_failure True
        (set_revolute_joint_angle_open_chain_command [1, 2, 3, 4, 5, 6, 7] driver_with_torque)
       = Some Index_out_of_range"
proof -
  let ?d = "set_revolute_joint_angle_open_chain_command [1, 2, 3, 4, 5, 6, 7] driver_with_torque"
  have h: "kukaJavaDriverP ?d =
     Some \<lparr> bound_endpoint = ''tcp://0.0.0.0:30010'',
            connected_endpoint = ''tcp://172.31.1.147:30010'', submitted = [] \<rparr>"
    by (simp add: set_angle_transport driver_with_torque_transport)
  have m: "run_one_message False ?d
       = Some \<lparr> position = [1, 2, 3, 4, 5, 6, 7], velocity = [], acceleration = [3, 4] \<rparr>"
    by (simp add: run_one_message_unchecked [OF h] set_angle_armState
        driver_with_torque_armState KukaState_default_def)
  from run_one_velocity_empty [OF h] h m show ?thesis by simp
qed

text \<open>
  C7. Without a Transport, \<open>run_one\<close> returns \<open>false\<close> and the driver is the same
  object state as before: commanded state, parameters, transport handle, worker thread
  and all other members. The call returns normally in every build and nothing is
  submitted, there being no transport to submit to.
\<close>

theorem run_one_without_transport:
  "kukaJavaDriverP d = None \<Longrightarrow> run_one c d = Inr (False, d)"
  by (simp add: run_one_def)

theorem run_one_without_transport_witness:
  "kukaJavaDriverP fresh_driver = None
   \<and> run_one False fresh_driver = Inr (False, fresh_driver)
   \<and> run_one True fresh_driver = Inr (False, fresh_driver)"
  using run_one_without_transport [OF fresh_driver_transport, of False]
    run_one_without_transport [OF fresh_driver_transport, of True]
  by (simp add: fresh_driver_transport)

text \<open>
  C8, as stated, fails: the body is \<open>BOOST_VERIFY(false)\<close>, and in a build with
  assertions switched off (\<open>NDEBUG\<close> without an assert handler, or
  \<open>BOOST_DISABLE_ASSERTS\<close>) the macro only evaluates its argument. There the function
  returns normally, having written nothing.
\<close>

theorem get_joint_angle_state_returns_without_assertions:
  "get_revolute_joint_angle_open_chain_state False [] fresh_driver = Inr ([], fresh_driver)"
  by (simp add: get_revolute_joint_angle_open_chain_state_def BOOST_VERIFY_def)

text \<open>
  C8, amended. In a build with assertions switched on, the joint-state read-back fails
  its assertion for every output iterator and every driver state. In a build with
  assertions switched off it returns for every input, and leaves the output and the
  driver untouched.
\<close>

theorem get_joint_angle_state_asserts_when_enabled:
  "get_revolute_joint_angle_open_chain_state True output d = Inl Assertion_failed
   \<and> get_revolute_joint_angle_open_chain_state False output d = Inr (output, d)"
  by (simp add: get_revolute_joint_angle_open_chain_state_def BOOST_VERIFY_def)

text \<open>
  C9, as stated, fails in two ways. A driver that already has a Transport keeps it
  when a later \<open>construct\<close> fails to bind: the handle is assigned only after bind and
  connect have returned, and nothing resets it. And the handler catches
  \<open>boost::exception\<close> only: a failure of another type reaches the caller without the
  addresses.
\<close>

theorem construct_failure_keeps_transport_or_is_not_augmented:
  "construct (Some (Boost_exception [])) None defaultParams connected_driver
     = Inl (Thrown (Boost_exception [errmsg_info defaultParams]),
            connected_driver\<lparr>params := defaultParams, device_driver_workP := True\<rparr>)
   \<and> kukaJavaDriverP (connected_driver\<lparr>params := defaultParams, device_driver_workP := True\<rparr>)
       \<noteq> None
   \<and> construct (Some Other_exception) None defaultParams fresh_driver
       = Inl (Thrown Other_exception,
              fresh_driver\<lparr>params := defaultParams, device_driver_workP := True\<rparr>)"
  by (simp add: construct_def connected_driver_transport)

text \<open>
  C9, amended. When bind, or connect after a successful bind, throws a
  \<open>boost::exception\<close>, \<open>construct(params)\<close> attaches the message that names the local
  and remote address of \<open>params\<close> and throws it on to the caller, once and without a
  second attempt; an exception of another type is passed on as it is. In both cases the
  driver is left with \<open>params\<close> stored, the work token set, and the Transport handle as
  it was before the call: a driver without a Transport is still without one.
\<close>

theorem construct_failure_propagates:
  "construct (Some (Boost_exception infos)) c p d =
     Inl (Thrown (Boost_exception (infos @ [errmsg_info p])),
          d\<lparr>params := p, device_driver_workP := True\<rparr>)
   \<and> construct None (Some (Boost_exception infos)) p d =
     Inl (Thrown (Boost_exception (infos @ [errmsg_info p])),
          d\<lparr>params := p, device_driver_workP := True\<rparr>)
   \<and> construct (Some Other_exception) c p d =
     Inl (Thrown Other_exception, d\<lparr>params := p, device_driver_workP := True\<rparr>)
   \<and> construct None (Some Other_exception) p d =
     Inl (Thrown Other_exception, d\<lparr>params := p, device_driver_workP := True\<rparr>)
   \<and> kukaJavaDriverP (d\<lparr>params := p, device_driver_workP := True\<rparr>) = kukaJavaDriverP d
   \<and> errmsg_info p =
       ''KukaLBRiiwaRosPlugin: Unable to connect to ZeroMQ Socket from ''
         @ LocalZMQAddress p @ '' to '' @ RemoteZMQAddress p"
  by (simp add: construct_def errmsg_info_def)

text \<open>
  C10. Starting from a newly built driver, after any sequence of operations
  (\<open>construct\<close> with any outcome of its socket calls, the three setters, both \<open>get\<close>s,
  \<open>setState\<close>, \<open>getParams\<close>, \<open>run_one\<close>, the destructor) the four health counters
  still hold 0.
\<close>

theorem health_counters_stay_zero:
  "health_counters (fold state_after ops (KukaJAVAdriver_new p)) = (0, 0, 0, 0)"
  by (simp add: fold_state_after_health_counters)
     (simp add: health_counters_def KukaJAVAdriver_new_def)

end
